theory Spec2Isabelle
  imports Complex_Main
begin

section \<open>Conventions of the embedding\<close>

text \<open>
  The Python sources are \<^verbatim>\<open>shmolecule/space_group.py\<close>, \<^verbatim>\<open>shmolecule/unit_cell.py\<close> and
  \<^verbatim>\<open>shmolecule/crystal.py\<close>.

  \<^item> A numpy array of shape \<open>(3,)\<close> is a list of three numbers, an array of shape \<open>(3, 3)\<close> or
    \<open>(N, 3)\<close> a list of rows. Indexing with \<open>!\<close> is only meaningful inside the shape; the
    theorems below state the shapes they need.
  \<^item> A float64 is an exact number: a \<open>rat\<close> in the symmetry and crystal code (every operation
    there is rational arithmetic followed by rounding), a \<open>real\<close> in the unit cell (where
    \<open>\<pi>\<close> occurs). Rounding error of float arithmetic is outside the model.
  \<^item> Python integers are \<open>int\<close>; \<open>%\<close> and \<open>//\<close> with a positive divisor are \<open>mod\<close> and
    \<open>div\<close>.
  \<^item> An exception is a value of \<open>py_error\<close>, returned as \<open>Inl\<close>.
  \<^item> Attributes that only memoise a result (\<^verbatim>\<open>_unit_cell_atom_dict\<close>,
    \<^verbatim>\<open>_symmetry_unique_molecules\<close>) are not modelled: the functions are the computation
    of the first call. The attribute \<^verbatim>\<open>_integer_code\<close> is modelled, because
    \<^verbatim>\<open>from_integer_code\<close> writes it without encoding.
\<close>

datatype py_error =
    KeyError_int int
  | KeyError_str string
  | ValueError
  | IndexError
  | ZeroDivisionError

section \<open>numpy helpers\<close>

text \<open>\<^verbatim>\<open>np.round\<close>: to the nearest integer, halves to the even neighbour.\<close>

definition np_round :: "rat \<Rightarrow> int" where
  "np_round x =
     (let f = \<lfloor>x\<rfloor>; d = x - of_int f
      in if d < 1 / 2 then f
         else if 1 / 2 < d then f + 1
         else if even f then f else f + 1)"

text \<open>\<^verbatim>\<open>x % 1\<close> on a float array: the result has the sign of the divisor.\<close>

definition mod_one :: "rat \<Rightarrow> rat" where
  "mod_one x = x - of_int \<lfloor>x\<rfloor>"

text \<open>\<^verbatim>\<open>np.fmod(x, 1)\<close>: the C function, whose result has the sign of the dividend.\<close>

definition fmod_one :: "rat \<Rightarrow> rat" where
  "fmod_one x = x - of_int (if 0 \<le> x then \<lfloor>x\<rfloor> else \<lceil>x\<rceil>)"

text \<open>\<^verbatim>\<open>arr[mask]\<close> with a boolean mask of the same length.\<close>

definition select_mask :: "'a list \<Rightarrow> bool list \<Rightarrow> 'a list" where
  "select_mask xs msk = map fst (filter snd (zip xs msk))"

text \<open>\<^verbatim>\<open>np.tile(xs, n)\<close> on a one-dimensional array.\<close>

definition np_tile :: "'a list \<Rightarrow> nat \<Rightarrow> 'a list" where
  "np_tile xs n = concat (replicate n xs)"


section \<open>space\_group.py\<close>

definition LATTICE_TYPE_TRANSLATIONS :: "int \<rightharpoonup> rat list list" where
  "LATTICE_TYPE_TRANSLATIONS =
     map_of
       [(1, []),
        (2, [[1 / 2, 1 / 2, 1 / 2]]),
        (3, [[2 / 3, 1 / 3, 1 / 3], [1 / 3, 2 / 3, 2 / 3]]),
        (4, [[0, 1 / 2, 1 / 2], [1 / 2, 0, 1 / 2], [1 / 2, 1 / 2, 0]]),
        (5, [[0, 1 / 2, 1 / 2]]),
        (6, [[1 / 2, 0, 1 / 2]]),
        (7, [[1 / 2, 1 / 2, 0]])]"

text \<open>
  \<^verbatim>\<open>decode_symm_int\<close>. The two nested loops over \<open>(0, 1, 2)\<close> run over the index pairs in
  row-major order; the loop state is the array and \<open>shift\<close>. \<^verbatim>\<open>np.empty\<close> is modelled by
  zeros: every cell is written before it is read.
\<close>

definition decode_symm_int :: "int \<Rightarrow> rat list list \<times> rat list" where
  "decode_symm_int coded_integer =
     (let r = coded_integer mod 19683;
          (rotation, shift) =
             foldl (\<lambda>(rotation, shift) (i, j).
                      (rotation[i := (rotation ! i)[j := of_int ((r mod (shift * 3)) div shift - 1)]],
                       shift div 3))
                   (replicate 3 (replicate 3 0), 6561)
                   (List.product [0, 1, 2] [0, 1, 2]);
          t = coded_integer div 19683;
          (translation, shift') =
             foldl (\<lambda>(translation, shift) i.
                      (translation[i := of_int ((t mod (shift * 12)) div shift) / 12],
                       shift div 12))
                   (replicate 3 0, 144)
                   [0, 1, 2]
      in (rotation, translation))"

text \<open>
  \<^verbatim>\<open>encode_symm_int\<close>. Both loops run over \<open>(2, 1, 0)\<close>. numpy adds and multiplies in
  \<^verbatim>\<open>int64\<close>; the integers of the model are unbounded, and the two agree while the rounded
  entries stay within \<open>2^40\<close> in magnitude, far beyond the rotations and translations that
  the statements below admit.
\<close>

definition encode_symm_int :: "rat list list \<Rightarrow> rat list \<Rightarrow> int" where
  "encode_symm_int rotation translation =
     (let rotation' = map (map (\<lambda>x. np_round x + 1)) rotation;
          (r, shift) =
             foldl (\<lambda>(r, shift) (i, j). (r + rotation' ! i ! j * shift, shift * 3))
                   (0, 1)
                   (List.product [2, 1, 0] [2, 1, 0]);
          translation' = map (\<lambda>x. np_round (x * 12)) translation;
          (t, shift') =
             foldl (\<lambda>(t, shift) i. (t + translation' ! i * shift, shift * 12))
                   (0, 1)
                   [2, 1, 0]
      in r + t * 19683)"

text \<open>
  The class \<^verbatim>\<open>SymmetryOperation\<close>. \<open>integer_code_attr\<close> is the attribute
  \<^verbatim>\<open>_integer_code\<close>: absent after \<^verbatim>\<open>__init__\<close>, set by \<^verbatim>\<open>from_integer_code\<close>.
\<close>

record SymmetryOperation =
  rotation :: "rat list list"
  translation :: "rat list"
  integer_code_attr :: "int option"

definition SymmetryOperation_init :: "rat list list \<Rightarrow> rat list \<Rightarrow> SymmetryOperation" where
  "SymmetryOperation_init rot tr =
     \<lparr>rotation = rot, translation = map mod_one tr, integer_code_attr = None\<rparr>"

text \<open>
  The property \<^verbatim>\<open>integer_code\<close>: the attribute when it is set, the encoding otherwise
  (the property also stores the encoding; the stored value is the one returned here).
\<close>

definition integer_code :: "SymmetryOperation \<Rightarrow> int" where
  "integer_code s =
     (case integer_code_attr s of
        Some c \<Rightarrow> c
      | None \<Rightarrow> encode_symm_int (rotation s) (translation s))"

definition inverted :: "SymmetryOperation \<Rightarrow> SymmetryOperation" where
  "inverted s = SymmetryOperation_init (map (map uminus) (rotation s)) (map uminus (translation s))"

text \<open>\<^verbatim>\<open>__add__\<close>.\<close>

definition symop_add :: "SymmetryOperation \<Rightarrow> rat list \<Rightarrow> SymmetryOperation" where
  "symop_add s v = SymmetryOperation_init (rotation s) (map2 (+) (translation s) v)"

text \<open>\<^verbatim>\<open>__eq__\<close>, and \<^verbatim>\<open>x in xs\<close> on a list, which compares with \<^verbatim>\<open>__eq__\<close>.\<close>

definition symop_eq :: "SymmetryOperation \<Rightarrow> SymmetryOperation \<Rightarrow> bool" where
  "symop_eq s other = (integer_code s = integer_code other)"

definition symop_in :: "SymmetryOperation \<Rightarrow> SymmetryOperation list \<Rightarrow> bool" where
  "symop_in x xs = list_ex (\<lambda>e. symop_eq e x) xs"

definition from_integer_code :: "int \<Rightarrow> SymmetryOperation" where
  "from_integer_code code =
     (case decode_symm_int code of
        (rot, tr) \<Rightarrow> (SymmetryOperation_init rot tr)\<lparr>integer_code_attr := Some code\<rparr>)"

definition is_identity :: "SymmetryOperation \<Rightarrow> bool" where
  "is_identity s = (integer_code s = 16484)"

definition identity :: SymmetryOperation where
  "identity = from_integer_code 16484"

text \<open>
  \<^verbatim>\<open>apply\<close> on an \<open>(N, 3)\<close> array: \<^verbatim>\<open>np.dot(coordinates, rotation.T) + translation\<close>.
\<close>

definition symop_apply :: "SymmetryOperation \<Rightarrow> rat list list \<Rightarrow> rat list list" where
  "symop_apply s coordinates =
     map (\<lambda>p. map2 (+) (map (\<lambda>row. sum_list (map2 (*) p row)) (rotation s)) (translation s))
         coordinates"

text \<open>
  \<^verbatim>\<open>expanded_symmetry_list\<close>. The function appends to the list it is given, so the model
  returns the caller's list after the call together with the result. The lookup of the
  translations comes first: when it raises, the list has not been touched.
\<close>

definition expanded_symmetry_list ::
  "SymmetryOperation list \<Rightarrow> int \<Rightarrow> py_error + (SymmetryOperation list \<times> SymmetryOperation list)"
where
  "expanded_symmetry_list reduced_symops lattice_type =
     (let lattice_type_value = \<bar>lattice_type\<bar>
      in case LATTICE_TYPE_TRANSLATIONS lattice_type_value of
           None \<Rightarrow> Inl (KeyError_int lattice_type_value)
         | Some translations \<Rightarrow>
             (let reduced_symops' =
                    (if \<not> symop_in identity reduced_symops
                     then reduced_symops @ [identity] else reduced_symops);
                  full_symops =
                    concat (map (\<lambda>symop. symop # map (\<lambda>t. symop_add symop t) translations)
                                reduced_symops');
                  full_symops' =
                    (if 0 < lattice_type
                     then full_symops @ map inverted full_symops else full_symops)
              in Inr (reduced_symops', full_symops')))"

text \<open>
  The \<^verbatim>\<open>for t in translations ... else\<close> loop of \<^verbatim>\<open>reduced_symmetry_list\<close>: the value is
  whether the loop leaves through a \<^verbatim>\<open>break\<close>.
\<close>

fun centering_break ::
  "bool \<Rightarrow> SymmetryOperation list \<Rightarrow> SymmetryOperation \<Rightarrow> rat list list \<Rightarrow> bool"
where
  "centering_break inversion reduced_symops next_symop [] = False"
| "centering_break inversion reduced_symops next_symop (t # translations) =
     (let x = symop_add next_symop t
      in if inversion \<and> symop_in (inverted x) reduced_symops then True
         else if symop_in x reduced_symops then True
         else centering_break inversion reduced_symops next_symop translations)"

text \<open>The \<^verbatim>\<open>while symops_to_process\<close> loop; the head of the list is popped each round.\<close>

fun reduce_loop ::
  "bool \<Rightarrow> rat list list \<Rightarrow> SymmetryOperation list \<Rightarrow> SymmetryOperation list
     \<Rightarrow> SymmetryOperation list"
where
  "reduce_loop inversion translations reduced_symops [] = reduced_symops"
| "reduce_loop inversion translations reduced_symops (next_symop # symops_to_process) =
     (if symop_in next_symop reduced_symops
      then reduce_loop inversion translations reduced_symops symops_to_process
      else if inversion \<and> symop_in (inverted next_symop) reduced_symops
      then reduce_loop inversion translations reduced_symops symops_to_process
      else if centering_break inversion reduced_symops next_symop translations
      then reduce_loop inversion translations reduced_symops symops_to_process
      else reduce_loop inversion translations (reduced_symops @ [next_symop]) symops_to_process)"

text \<open>
  \<^verbatim>\<open>reduced_symmetry_list\<close>. The source also computes \<^verbatim>\<open>set(full_symops)\<close> and the sorted
  list \<^verbatim>\<open>symop_codes\<close>; neither is read again, and the loop runs over
  \<^verbatim>\<open>list(full_symops)\<close>.
\<close>

definition reduced_symmetry_list ::
  "SymmetryOperation list \<Rightarrow> int \<Rightarrow> py_error + SymmetryOperation list"
where
  "reduced_symmetry_list full_symops lattice_type =
     (let lattice_type_value = \<bar>lattice_type\<bar>
      in case LATTICE_TYPE_TRANSLATIONS lattice_type_value of
           None \<Rightarrow> Inl (KeyError_int lattice_type_value)
         | Some translations \<Rightarrow>
             (let reduced_symops = [identity];
                  symops_to_process = full_symops;
                  inversion = (0 < lattice_type)
              in Inr (reduce_loop inversion translations reduced_symops symops_to_process)))"

text \<open>
  \<^verbatim>\<open>SpaceGroup.apply_all_symops\<close>, on the operation list of the space group. The first
  loop looks for the identity and leaves \<open>unity = 0\<close> when there is none. With no
  operation at all both arrays are empty and the first slice assignment writes the
  \<open>nsites\<close> rows into an empty slice: numpy broadcasts no row or one row into it and
  refuses two or more. \<^verbatim>\<open>generator_symop\<close> is an \<^verbatim>\<open>int32\<close> array, so a code is stored
  modulo \<open>2^32\<close> (the cast of C; recent numpy versions raise instead when a Python
  integer does not fit).
\<close>

definition astype_int32 :: "int \<Rightarrow> int" where
  "astype_int32 c = (c + 2147483648) mod 4294967296 - 2147483648"

fun unity_index :: "SymmetryOperation list \<Rightarrow> nat \<Rightarrow> nat" where
  "unity_index [] i = 0"
| "unity_index (s # rest) i = (if integer_code s = 16484 then i else unity_index rest (Suc i))"

definition apply_all_symops ::
  "SymmetryOperation list \<Rightarrow> rat list list \<Rightarrow> py_error + (int list \<times> rat list list)"
where
  "apply_all_symops symmetry_operations coordinates =
     (let nsites = length coordinates;
          unity = unity_index symmetry_operations 0
      in if symmetry_operations = [] then (if 1 < nsites then Inl ValueError else Inr ([], []))
         else
           (let other_symops = take unity symmetry_operations @ drop (unity + 1) symmetry_operations
            in Inr (replicate nsites (astype_int32 16484)
                      @ concat (map (\<lambda>s. replicate nsites (astype_int32 (integer_code s)))
                                    other_symops),
                    coordinates
                      @ concat (map (\<lambda>s. symop_apply s coordinates) other_symops))))"



section \<open>unit\_cell.py\<close>

text \<open>
  The part of \<^verbatim>\<open>UnitCell\<close> that classifies the cell: the lengths, the angles (radians) and
  the three attributes written by \<^verbatim>\<open>set_cell_type\<close>.
\<close>

record UnitCell =
  lengths :: "real list"
  angles :: "real list"
  cell_type_index :: nat
  cell_type :: string
  unique_parameters :: "real list"

text \<open>
  \<^verbatim>\<open>close\<close> is \<^verbatim>\<open>numpy.allclose\<close> with its default tolerances: on two numbers,
  \<open>\<bar>a - b\<bar> \<le> atol + rtol * \<bar>b\<bar>\<close> with \<open>atol = 1e-8\<close> and \<open>rtol = 1e-5\<close>; on arrays, for
  every component.
\<close>

definition close :: "real \<Rightarrow> real \<Rightarrow> bool" where
  "close a b = (\<bar>a - b\<bar> \<le> 1 / 100000000 + 1 / 100000 * \<bar>b\<bar>)"

definition cell_a :: "UnitCell \<Rightarrow> real" where "cell_a uc = lengths uc ! 0"
definition cell_b :: "UnitCell \<Rightarrow> real" where "cell_b uc = lengths uc ! 1"
definition cell_c :: "UnitCell \<Rightarrow> real" where "cell_c uc = lengths uc ! 2"
definition cell_alpha :: "UnitCell \<Rightarrow> real" where "cell_alpha uc = angles uc ! 0"
definition cell_beta :: "UnitCell \<Rightarrow> real" where "cell_beta uc = angles uc ! 1"
definition cell_gamma :: "UnitCell \<Rightarrow> real" where "cell_gamma uc = angles uc ! 2"

definition abc_equal :: "UnitCell \<Rightarrow> bool" where
  "abc_equal uc = list_all (\<lambda>l. close (l - lengths uc ! 0) 0) (lengths uc)"

definition abc_different :: "UnitCell \<Rightarrow> bool" where
  "abc_different uc =
     (\<not> (close (cell_a uc) (cell_b uc) \<or> close (cell_a uc) (cell_c uc)
          \<or> close (cell_b uc) (cell_c uc)))"

definition orthogonal :: "UnitCell \<Rightarrow> bool" where
  "orthogonal uc = list_all (\<lambda>x. close (\<bar>x\<bar> - pi / 2) 0) (angles uc)"

definition angles_different :: "UnitCell \<Rightarrow> bool" where
  "angles_different uc =
     (\<not> (close (cell_alpha uc) (cell_beta uc) \<or> close (cell_alpha uc) (cell_gamma uc)
          \<or> close (cell_beta uc) (cell_gamma uc)))"

definition is_triclinic :: "UnitCell \<Rightarrow> bool" where
  "is_triclinic uc = (abc_different uc \<and> angles_different uc)"

definition is_monoclinic :: "UnitCell \<Rightarrow> bool" where
  "is_monoclinic uc = (close (cell_alpha uc) (cell_gamma uc) \<and> abc_different uc)"

definition is_cubic :: "UnitCell \<Rightarrow> bool" where
  "is_cubic uc = (abc_equal uc \<and> orthogonal uc)"

definition is_orthorhombic :: "UnitCell \<Rightarrow> bool" where
  "is_orthorhombic uc = (orthogonal uc \<and> abc_different uc)"

definition is_tetragonal :: "UnitCell \<Rightarrow> bool" where
  "is_tetragonal uc =
     (close (cell_a uc) (cell_b uc) \<and> \<not> close (cell_a uc) (cell_c uc) \<and> orthogonal uc)"

definition is_rhombohedral :: "UnitCell \<Rightarrow> bool" where
  "is_rhombohedral uc =
     (abc_equal uc
      \<and> list_all (\<lambda>x. close (x - angles uc ! 0) 0) (angles uc)
      \<and> \<not> close (cell_alpha uc) (pi / 2))"

definition is_hexagonal :: "UnitCell \<Rightarrow> bool" where
  "is_hexagonal uc =
     (close (cell_a uc) (cell_b uc)
      \<and> \<not> close (cell_a uc) (cell_c uc)
      \<and> list_all (\<lambda>x. close x (pi / 2)) (take 2 (angles uc))
      \<and> close (cell_gamma uc) (2 * pi / 3))"

definition set_cell_type :: "UnitCell \<Rightarrow> UnitCell" where
  "set_cell_type uc =
     (if is_cubic uc then
        uc\<lparr>cell_type_index := 6, cell_type := ''cubic'', unique_parameters := [cell_a uc]\<rparr>
      else if is_rhombohedral uc then
        uc\<lparr>cell_type_index := 4, cell_type := ''rhombohedral'',
           unique_parameters := [cell_a uc, cell_alpha uc]\<rparr>
      else if is_hexagonal uc then
        uc\<lparr>cell_type_index := 5, cell_type := ''hexagonal'',
           unique_parameters := [cell_a uc, cell_c uc]\<rparr>
      else if is_tetragonal uc then
        uc\<lparr>cell_type_index := 3, cell_type := ''tetragonal'',
           unique_parameters := [cell_a uc, cell_c uc]\<rparr>
      else if is_orthorhombic uc then
        uc\<lparr>cell_type_index := 2, cell_type := ''orthorhombic'',
           unique_parameters := [cell_a uc, cell_b uc, cell_c uc]\<rparr>
      else if is_monoclinic uc then
        uc\<lparr>cell_type_index := 1, cell_type := ''monoclinic'',
           unique_parameters := [cell_a uc, cell_b uc, cell_c uc, cell_beta uc]\<rparr>
      else
        uc\<lparr>cell_type_index := 0, cell_type := ''triclinic'',
           unique_parameters :=
             [cell_a uc, cell_b uc, cell_c uc, cell_alpha uc, cell_beta uc, cell_gamma uc]\<rparr>)"

text \<open>
  The classification as the specification words it: the class predicates in their priority
  order, the first that holds names the cell, and a cell that none of them accepts is
  triclinic.
\<close>

definition priority_order :: "UnitCell \<Rightarrow> (bool \<times> string) list" where
  "priority_order uc =
     [(is_cubic uc, ''cubic''),
      (is_rhombohedral uc, ''rhombohedral''),
      (is_hexagonal uc, ''hexagonal''),
      (is_tetragonal uc, ''tetragonal''),
      (is_orthorhombic uc, ''orthorhombic''),
      (is_monoclinic uc, ''monoclinic'')]"

definition first_match_cell_type :: "UnitCell \<Rightarrow> string" where
  "first_match_cell_type uc =
     (case find fst (priority_order uc) of
        Some (holds, name) \<Rightarrow> name
      | None \<Rightarrow> ''triclinic'')"

section \<open>crystal.py\<close>

record AsymmetricUnit =
  atomic_numbers :: "int list"
  positions :: "rat list list"
  labels :: "string list"
  occupation_property :: "rat list option"

text \<open>
  A \<^verbatim>\<open>Crystal\<close>: the direct matrix of its unit cell, the operations of its space group and
  its asymmetric unit.
\<close>

record Crystal =
  direct :: "rat list list"
  symmetry_operations :: "SymmetryOperation list"
  asymmetric_unit :: AsymmetricUnit

definition nsites :: "Crystal \<Rightarrow> nat" where
  "nsites c = length (atomic_numbers (asymmetric_unit c))"

text \<open>\<^verbatim>\<open>UnitCell.to_cartesian\<close>: \<^verbatim>\<open>np.dot(coords, self.direct)\<close>.\<close>

definition to_cartesian :: "rat list list \<Rightarrow> rat list list \<Rightarrow> rat list list" where
  "to_cartesian direct_matrix coords =
     map (\<lambda>p. map (\<lambda>col. sum_list (map2 (*) p col)) (transpose direct_matrix)) coords"

text \<open>
  \<^verbatim>\<open>KDTree.sparse_distance_matrix(tree, max_distance)\<close> of scipy, as far as the caller
  reads it: the index pairs of the points that are at most \<open>max_distance\<close> apart (Euclidean
  distance, compared through its square). The order of the items of the scipy matrix is not
  documented; row-major order is taken here.
\<close>

definition squared_distance :: "rat list \<Rightarrow> rat list \<Rightarrow> rat" where
  "squared_distance p q = sum_list (map2 (\<lambda>a b. (a - b) * (a - b)) p q)"

definition sparse_distance_matrix :: "rat list list \<Rightarrow> rat \<Rightarrow> (nat \<times> nat) list" where
  "sparse_distance_matrix pts max_distance =
     concat (map (\<lambda>i. concat (map (\<lambda>j.
        if 0 \<le> max_distance
           \<and> squared_distance (pts ! i) (pts ! j) \<le> max_distance * max_distance
        then [(i, j)] else []) [0..<length pts])) [0..<length pts])"

text \<open>The loop of \<^verbatim>\<open>unit_cell_atoms\<close> over the close pairs.\<close>

fun merge_sites :: "(nat \<times> nat) list \<Rightarrow> rat list \<times> bool list \<Rightarrow> rat list \<times> bool list" where
  "merge_sites [] (occ, msk) = (occ, msk)"
| "merge_sites ((i, j) # rest) (occ, msk) =
     (if \<not> i < j then merge_sites rest (occ, msk)
      else merge_sites rest (occ[i := occ ! i + occ ! j], msk[j := False]))"

record unit_cell_atom_dict =
  asym_atom :: "nat list"
  frac_pos :: "rat list list"
  element :: "int list"
  symop :: "int list"
  label :: "string list"
  occupation :: "rat list"
  cart_pos :: "rat list list"

text \<open>The wrapping step of \<^verbatim>\<open>unit_cell_atoms\<close>: \<^verbatim>\<open>np.fmod(uc_pos + 7.0, 1)\<close>.\<close>

definition wrap_positions :: "rat list list \<Rightarrow> rat list list" where
  "wrap_positions uc_pos = map (map (\<lambda>x. fmod_one (x + 7))) uc_pos"

text \<open>
  \<^verbatim>\<open>Crystal.unit_cell_atoms\<close>. Indexing an array with a mask of another length, or beyond
  its end inside the loop, raises \<^verbatim>\<open>IndexError\<close>.
\<close>

definition unit_cell_atoms :: "Crystal \<Rightarrow> rat \<Rightarrow> py_error + unit_cell_atom_dict" where
  "unit_cell_atoms c tolerance =
     (let pos = positions (asymmetric_unit c);
          atoms = atomic_numbers (asymmetric_unit c);
          natom = nsites c;
          nsymops = length (symmetry_operations c);
          occupation0 =
            np_tile (case occupation_property (asymmetric_unit c) of
                       Some occ \<Rightarrow> occ
                     | None \<Rightarrow> replicate natom 1) nsymops;
          labels0 = np_tile (labels (asymmetric_unit c)) nsymops;
          uc_nums = np_tile atoms nsymops;
          asym = map (\<lambda>k. k mod natom) [0..<length uc_nums]
      in case apply_all_symops (symmetry_operations c) pos of
           Inl e \<Rightarrow> Inl e
         | Inr (sym', uc_pos) \<Rightarrow>
             (let translated = wrap_positions uc_pos;
                  dist = sparse_distance_matrix translated tolerance;
                  msk0 = replicate (length uc_pos) True
              in if length occupation0 \<noteq> length uc_pos \<or> length labels0 \<noteq> length uc_pos
                    \<or> length uc_nums \<noteq> length uc_pos
                 then Inl IndexError
                 else
                   (case merge_sites dist (occupation0, msk0) of
                      (occupation1, msk) \<Rightarrow>
                        Inr \<lparr>asym_atom = select_mask asym msk,
                             frac_pos = select_mask translated msk,
                             element = select_mask uc_nums msk,
                             symop = select_mask sym' msk,
                             label = select_mask labels0 msk,
                             occupation = select_mask occupation1 msk,
                             cart_pos = to_cartesian (direct c) (select_mask translated msk)\<rparr>)))"





text \<open>
  \<^verbatim>\<open>os.path.splitext\<close> of the Python library on POSIX paths, and \<^verbatim>\<open>str.lower\<close> on ASCII
  letters.
\<close>

definition rfind :: "string \<Rightarrow> char \<Rightarrow> int" where
  "rfind p ch =
     (case filter (\<lambda>k. p ! k = ch) (rev [0..<length p]) of
        [] \<Rightarrow> - 1
      | k # ks \<Rightarrow> int k)"

definition splitext :: "string \<Rightarrow> string \<times> string" where
  "splitext p =
     (let sepIndex = rfind p (CHR ''/'');
          dotIndex = rfind p (CHR ''.'')
      in if sepIndex < dotIndex
            \<and> list_ex (\<lambda>k. p ! k \<noteq> CHR ''.'') [nat (sepIndex + 1)..<nat dotIndex]
         then (take (nat dotIndex) p, drop (nat dotIndex) p)
         else (p, []))"

definition ascii_lower :: "char \<Rightarrow> char" where
  "ascii_lower ch =
     (let n = (of_char ch :: nat)
      in if 65 \<le> n \<and> n \<le> 90 then char_of (n + 32) else ch)"

definition str_lower :: "string \<Rightarrow> string" where
  "str_lower s = map ascii_lower s"

text \<open>
  \<^verbatim>\<open>Crystal.load\<close> and \<^verbatim>\<open>Crystal.save\<close>. The readers and writers they dispatch to are
  parameters. A key that is missing from the dictionary raises \<^verbatim>\<open>KeyError\<close> with the key.
\<close>

definition Crystal_load ::
  "(string \<Rightarrow> py_error + 'c) \<Rightarrow> (string \<Rightarrow> py_error + 'c) \<Rightarrow> string \<Rightarrow> py_error + 'c"
where
  "Crystal_load from_cif_file from_shelx_file filename =
     (let extension_map = map_of [(''.cif'', from_cif_file), (''.res'', from_shelx_file)];
          extension = str_lower (snd (splitext filename))
      in case extension_map extension of
           None \<Rightarrow> Inl (KeyError_str extension)
         | Some reader \<Rightarrow> reader filename)"

definition Crystal_save ::
  "(string \<Rightarrow> py_error + 'r) \<Rightarrow> (string \<Rightarrow> py_error + 'r) \<Rightarrow> string \<Rightarrow> py_error + 'r"
where
  "Crystal_save to_cif_file to_shelx_file filename =
     (let extension_map = map_of [(''.cif'', to_cif_file), (''.res'', to_shelx_file)];
          extension = str_lower (snd (splitext filename))
      in case extension_map extension of
           None \<Rightarrow> Inl (KeyError_str extension)
         | Some writer \<Rightarrow> writer filename)"

section \<open>Predicates used in the statements\<close>

text \<open>A rotation as the claims take it: three rows of three entries, each \<open>-1\<close>, \<open>0\<close> or \<open>1\<close>.\<close>

definition valid_rotation :: "rat list list \<Rightarrow> bool" where
  "valid_rotation rot =
     (length rot = 3
      \<and> list_all (\<lambda>row. length row = 3 \<and> list_all (\<lambda>x. x \<in> {- 1, 0, 1}) row) rot)"

text \<open>
  A translation of three twelfths with numerators in \<open>{0, 2, 3, 4, 6, 8, 9, 10}\<close>, and the
  wider class of all twelfths in \<open>[0, 1)\<close>, which is what one base-12 digit holds.
\<close>

definition crystallographic_translation :: "rat list \<Rightarrow> bool" where
  "crystallographic_translation tr =
     (length tr = 3
      \<and> list_all (\<lambda>x. x \<in> (\<lambda>n. of_int n / 12) ` {0, 2, 3, 4, 6, 8, 9, 10 :: int}) tr)"

definition duodecimal_translation :: "rat list \<Rightarrow> bool" where
  "duodecimal_translation tr =
     (length tr = 3 \<and> list_all (\<lambda>x. 0 \<le> x \<and> x < 1 \<and> of_int \<lfloor>x * 12\<rfloor> = x * 12) tr)"

text \<open>
  The attribute \<^verbatim>\<open>_integer_code\<close> of an object that the class built: absent, written by
  \<^verbatim>\<open>from_integer_code\<close> (then rotation and translation are the decoded ones), or written by
  the property \<^verbatim>\<open>integer_code\<close> (then it is the encoding).
\<close>

definition attr_consistent :: "SymmetryOperation \<Rightarrow> bool" where
  "attr_consistent s =
     (case integer_code_attr s of
        None \<Rightarrow> True
      | Some c \<Rightarrow>
          (rotation s, translation s)
            = (case decode_symm_int c of (rot, tr) \<Rightarrow> (rot, map mod_one tr))
          \<or> c = encode_symm_int (rotation s) (translation s))"

definition identity_rotation :: "rat list list" where
  "identity_rotation = [[1, 0, 0], [0, 1, 0], [0, 0, 1]]"

text \<open>What the caller's list is after a call of \<^verbatim>\<open>expanded_symmetry_list\<close>.\<close>

definition caller_list_after :: "SymmetryOperation list \<Rightarrow> int \<Rightarrow> SymmetryOperation list" where
  "caller_list_after reduced_symops lattice_type =
     (case expanded_symmetry_list reduced_symops lattice_type of
        Inl e \<Rightarrow> reduced_symops
      | Inr (reduced_symops', full_symops) \<Rightarrow> reduced_symops')"

text \<open>
  The text of a \<^verbatim>\<open>KeyError\<close> with a string key is the \<^verbatim>\<open>repr\<close> of the key, in single
  quotes. An error indicates an unsupported format when its text says so; the other errors
  of this model carry no text.
\<close>

definition key_error_text :: "string \<Rightarrow> string" where
  "key_error_text k = [CHR 0x27] @ k @ [CHR 0x27]"

fun mentions :: "string \<Rightarrow> string \<Rightarrow> bool" where
  "mentions word [] = (word = [])"
| "mentions word (ch # rest) = (take (length word) (ch # rest) = word \<or> mentions word rest)"

definition indicates_unsupported_format :: "py_error \<Rightarrow> bool" where
  "indicates_unsupported_format e =
     (case e of
        KeyError_str k \<Rightarrow> mentions ''unsupported'' (str_lower (key_error_text k))
      | _ \<Rightarrow> False)"

text \<open>A reader or writer that succeeds, for the concrete calls below.\<close>

definition accepting_handler :: "string \<Rightarrow> py_error + unit" where
  "accepting_handler filename = Inr ()"

text \<open>
  The occupation of the sites of the asymmetric unit (\<open>1\<close> for every site when the property
  is absent), and the invariant of \<^verbatim>\<open>AsymmetricUnit\<close>: positions, labels and occupations
  have one entry per site.
\<close>

definition site_occupation :: "Crystal \<Rightarrow> rat list" where
  "site_occupation c =
     (case occupation_property (asymmetric_unit c) of
        Some occ \<Rightarrow> occ
      | None \<Rightarrow> replicate (nsites c) 1)"

definition consistent_asymmetric_unit :: "Crystal \<Rightarrow> bool" where
  "consistent_asymmetric_unit c =
     (length (positions (asymmetric_unit c)) = nsites c
      \<and> length (labels (asymmetric_unit c)) = nsites c
      \<and> length (site_occupation c) = nsites c)"

text \<open>
  The wrapped symmetry images of the sites, and the condition that the tree query of
  \<^verbatim>\<open>unit_cell_atoms\<close> finds no pair of two different images within the tolerance.
\<close>

definition generated_images :: "Crystal \<Rightarrow> rat list list" where
  "generated_images c =
     (case apply_all_symops (symmetry_operations c) (positions (asymmetric_unit c)) of
        Inl e \<Rightarrow> []
      | Inr (sym', uc_pos) \<Rightarrow> wrap_positions uc_pos)"

definition no_close_images :: "Crystal \<Rightarrow> rat \<Rightarrow> bool" where
  "no_close_images c tolerance =
     list_all (\<lambda>(i, j). \<not> i < j) (sparse_distance_matrix (generated_images c) tolerance)"

text \<open>
  A concrete crystal: space group P-1 (identity and inversion), a unit cube as cell, carbon
  atoms at the given fractional positions.
\<close>

definition crystal_P1bar :: "rat list list \<Rightarrow> Crystal" where
  "crystal_P1bar pos =
     \<lparr>direct = [[1, 0, 0], [0, 1, 0], [0, 0, 1]],
      symmetry_operations = [identity, from_integer_code 3198],
      asymmetric_unit =
        \<lparr>atomic_numbers = replicate (length pos) 6, positions = pos,
         labels = replicate (length pos) ''C'', occupation_property = None\<rparr>\<rparr>"






















section \<open>Arithmetic of the packed integer\<close>

lemma digit_extract:
  fixes L d H m b :: int
  assumes "0 \<le> L" "L < m" "0 \<le> d" "d < b"
  shows "((L + d * m + H * (m * b)) mod (m * b)) div m = d"
proof -
  have m: "0 < m" using assms by linarith
  have "d * m \<le> (b - 1) * m" using assms m by (intro mult_right_mono) auto
  then have ub: "L + d * m < m * b" using assms by (simp add: algebra_simps)
  have lb: "0 \<le> L + d * m" using assms m by simp
  have "(L + d * m + H * (m * b)) mod (m * b) = L + d * m"
    using ub lb by simp
  moreover have "(L + d * m) div m = d" using assms m by simp
  ultimately show ?thesis by simp
qed

lemma digit_at:
  fixes L d H m b r M :: int
  assumes "r = L + d * m + H * M" "M = m * b" "0 \<le> L" "L < m" "0 \<le> d" "d < b"
  shows "(r mod M) div m = d"
  using digit_extract[of L m d b H] assms by simp

lemma ternary_digits:
  fixes a b c d e f g h i :: int
  assumes "0 \<le> a" "a \<le> 2" "0 \<le> b" "b \<le> 2" "0 \<le> c" "c \<le> 2" "0 \<le> d" "d \<le> 2" "0 \<le> e" "e \<le> 2"
     "0 \<le> f" "f \<le> 2" "0 \<le> g" "g \<le> 2" "0 \<le> h" "h \<le> 2" "0 \<le> i" "i \<le> 2"
  defines "r \<equiv> i + h * 3 + g * 9 + f * 27 + e * 81 + d * 243 + c * 729 + b * 2187 + a * 6561"
  shows "(r mod 19683) div 6561 = a" "(r mod 6561) div 2187 = b" "(r mod 2187) div 729 = c"
    "(r mod 729) div 243 = d" "(r mod 243) div 81 = e" "(r mod 81) div 27 = f"
    "(r mod 27) div 9 = g" "(r mod 9) div 3 = h" "r mod 3 = i" "0 \<le> r" "r < 19683"
proof -
  show "(r mod 19683) div 6561 = a"
    by (rule digit_at[where L = "i + h * 3 + g * 9 + f * 27 + e * 81 + d * 243 + c * 729 + b * 2187" and b = 3 and H = 0])
       (use assms in \<open>simp_all add: r_def\<close>)
  show "(r mod 6561) div 2187 = b"
    by (rule digit_at[where L = "i + h * 3 + g * 9 + f * 27 + e * 81 + d * 243 + c * 729" and b = 3 and H = "a"])
       (use assms in \<open>simp_all add: r_def\<close>)
  show "(r mod 2187) div 729 = c"
    by (rule digit_at[where L = "i + h * 3 + g * 9 + f * 27 + e * 81 + d * 243" and b = 3 and H = "b + a * 3"])
       (use assms in \<open>simp_all add: r_def\<close>)
  show "(r mod 729) div 243 = d"
    by (rule digit_at[where L = "i + h * 3 + g * 9 + f * 27 + e * 81" and b = 3 and H = "c + b * 3 + a * 9"])
       (use assms in \<open>simp_all add: r_def\<close>)
  show "(r mod 243) div 81 = e"
    by (rule digit_at[where L = "i + h * 3 + g * 9 + f * 27" and b = 3 and H = "d + c * 3 + b * 9 + a * 27"])
       (use assms in \<open>simp_all add: r_def\<close>)
  show "(r mod 81) div 27 = f"
    by (rule digit_at[where L = "i + h * 3 + g * 9" and b = 3 and H = "e + d * 3 + c * 9 + b * 27 + a * 81"])
       (use assms in \<open>simp_all add: r_def\<close>)
  show "(r mod 27) div 9 = g"
    by (rule digit_at[where L = "i + h * 3" and b = 3 and H = "f + e * 3 + d * 9 + c * 27 + b * 81 + a * 243"])
       (use assms in \<open>simp_all add: r_def\<close>)
  show "(r mod 9) div 3 = h"
    by (rule digit_at[where L = "i" and b = 3 and H = "g + f * 3 + e * 9 + d * 27 + c * 81 + b * 243 + a * 729"])
       (use assms in \<open>simp_all add: r_def\<close>)
  have "(r mod 3) div 1 = i"
    by (rule digit_at[where L = 0 and b = 3 and H = "h + g * 3 + f * 9 + e * 27 + d * 81 + c * 243 + b * 729 + a * 2187"])
       (use assms in \<open>simp_all add: r_def\<close>)
  then show "r mod 3 = i" by simp
  show "0 \<le> r" using assms by (simp add: r_def)
  show "r < 19683" using assms by (simp add: r_def)
qed

lemma duodecimal_digits:
  fixes x y z :: int
  assumes "0 \<le> x" "x \<le> 11" "0 \<le> y" "y \<le> 11" "0 \<le> z" "z \<le> 11"
  defines "t \<equiv> z + y * 12 + x * 144"
  shows "(t mod 1728) div 144 = x" "(t mod 144) div 12 = y" "t mod 12 = z"
proof -
  show "(t mod 1728) div 144 = x"
    by (rule digit_at[where L = "z + y * 12" and b = 12 and H = 0]) (use assms in \<open>simp_all add: t_def\<close>)
  show "(t mod 144) div 12 = y"
    by (rule digit_at[where L = "z" and b = 12 and H = x]) (use assms in \<open>simp_all add: t_def\<close>)
  have "(t mod 12) div 1 = z"
    by (rule digit_at[where L = 0 and b = 12 and H = "y + x * 12"]) (use assms in \<open>simp_all add: t_def\<close>)
  then show "t mod 12 = z" by simp
qed

lemma encode_symm_int_closed:
  "encode_symm_int [[a, b, c], [d, e, f], [g, h, i]] [x, y, z] =
     ((np_round i + 1) + (np_round h + 1) * 3 + (np_round g + 1) * 9 + (np_round f + 1) * 27
      + (np_round e + 1) * 81 + (np_round d + 1) * 243 + (np_round c + 1) * 729
      + (np_round b + 1) * 2187 + (np_round a + 1) * 6561)
     + (np_round (z * 12) + np_round (y * 12) * 12 + np_round (x * 12) * 144) * 19683"
  by (simp add: encode_symm_int_def)

lemma decode_symm_int_closed:
  "decode_symm_int n =
     ([[of_int ((n mod 19683 mod 19683) div 6561 - 1), of_int ((n mod 19683 mod 6561) div 2187 - 1),
        of_int ((n mod 19683 mod 2187) div 729 - 1)],
       [of_int ((n mod 19683 mod 729) div 243 - 1), of_int ((n mod 19683 mod 243) div 81 - 1),
        of_int ((n mod 19683 mod 81) div 27 - 1)],
       [of_int ((n mod 19683 mod 27) div 9 - 1), of_int ((n mod 19683 mod 9) div 3 - 1),
        of_int ((n mod 19683 mod 3) - 1)]],
      [of_int ((n div 19683 mod 1728) div 144) / 12, of_int ((n div 19683 mod 144) div 12) / 12,
       of_int (n div 19683 mod 12) / 12])"
  by (simp add: decode_symm_int_def Let_def numeral_3_eq_3)

lemma np_round_of_int: "np_round (of_int n) = n"
  by (simp add: np_round_def)

lemma list3_conv: "length xs = 3 \<longleftrightarrow> (\<exists>a b c. xs = [a, b, c])"
  by (auto simp: numeral_3_eq_3 length_Suc_conv)

lemma roundtrip_ints:
  fixes A B C D E F G H I X Y Z :: int
  assumes r: "- 1 \<le> A" "A \<le> 1" "- 1 \<le> B" "B \<le> 1" "- 1 \<le> C" "C \<le> 1" "- 1 \<le> D" "D \<le> 1"
      "- 1 \<le> E" "E \<le> 1" "- 1 \<le> F" "F \<le> 1" "- 1 \<le> G" "G \<le> 1" "- 1 \<le> H" "H \<le> 1"
      "- 1 \<le> I" "I \<le> 1"
    and t: "0 \<le> X" "X \<le> 11" "0 \<le> Y" "Y \<le> 11" "0 \<le> Z" "Z \<le> 11"
  shows "decode_symm_int
           (encode_symm_int [[of_int A, of_int B, of_int C], [of_int D, of_int E, of_int F],
                             [of_int G, of_int H, of_int I]]
                            [of_int X / 12, of_int Y / 12, of_int Z / 12])
         = ([[of_int A, of_int B, of_int C], [of_int D, of_int E, of_int F],
             [of_int G, of_int H, of_int I]],
            [of_int X / 12, of_int Y / 12, of_int Z / 12])"
proof -
  define rr where "rr = (I + 1) + (H + 1) * 3 + (G + 1) * 9 + (F + 1) * 27 + (E + 1) * 81
      + (D + 1) * 243 + (C + 1) * 729 + (B + 1) * 2187 + (A + 1) * 6561"
  define tt where "tt = Z + Y * 12 + X * 144"
  have enc: "encode_symm_int [[of_int A, of_int B, of_int C], [of_int D, of_int E, of_int F],
                             [of_int G, of_int H, of_int I]]
                            [of_int X / 12, of_int Y / 12, of_int Z / 12] = rr + tt * 19683"
    by (simp add: encode_symm_int_closed np_round_of_int rr_def tt_def)
  have dg: "(rr mod 19683) div 6561 = A + 1" "(rr mod 6561) div 2187 = B + 1"
    "(rr mod 2187) div 729 = C + 1" "(rr mod 729) div 243 = D + 1" "(rr mod 243) div 81 = E + 1"
    "(rr mod 81) div 27 = F + 1" "(rr mod 27) div 9 = G + 1" "(rr mod 9) div 3 = H + 1"
    "rr mod 3 = I + 1" "0 \<le> rr" "rr < 19683"
    unfolding rr_def by (rule ternary_digits; use r in simp)+
  have dt: "(tt mod 1728) div 144 = X" "(tt mod 144) div 12 = Y" "tt mod 12 = Z"
    unfolding tt_def by (rule duodecimal_digits; use t in simp)+
  have m: "(rr + tt * 19683) mod 19683 = rr" and d: "(rr + tt * 19683) div 19683 = tt"
    using dg(10,11) by simp_all
  show ?thesis
    unfolding enc decode_symm_int_closed m d
    by (simp only: dg(1-9) dt) simp
qed

lemma unit_entry: "x \<in> {- 1, 0, 1 :: rat} \<Longrightarrow> \<exists>A :: int. x = of_int A \<and> - 1 \<le> A \<and> A \<le> 1"
proof -
  assume "x \<in> {- 1, 0, 1 :: rat}"
  then consider "x = - 1" | "x = 0" | "x = 1" by auto
  then show ?thesis
  proof cases
    case 1 then show ?thesis by (intro exI[of _ "- 1"]) simp
  next
    case 2 then show ?thesis by (intro exI[of _ 0]) simp
  next
    case 3 then show ?thesis by (intro exI[of _ 1]) simp
  qed
qed

lemma twelfth_entry:
  fixes x :: rat
  assumes "0 \<le> x" "x < 1" "of_int \<lfloor>x * 12\<rfloor> = x * 12"
  shows "\<exists>N :: int. x = of_int N / 12 \<and> 0 \<le> N \<and> N \<le> 11"
proof (intro exI[of _ "\<lfloor>x * 12\<rfloor>"] conjI)
  have "x = x * 12 / 12" by simp
  also have "\<dots> = of_int \<lfloor>x * 12\<rfloor> / 12" by (simp only: assms(3))
  finally show "x = of_int \<lfloor>x * 12\<rfloor> / 12" .
  show "0 \<le> \<lfloor>x * 12\<rfloor>" using assms(1) by simp
  have "x * 12 < 12" using assms(2) by simp
  then have "\<lfloor>x * 12\<rfloor> < 12" by (simp add: floor_less_iff)
  then show "\<lfloor>x * 12\<rfloor> \<le> 11" by simp
qed

lemma decode_encode:
  assumes "valid_rotation rot" "duodecimal_translation tr"
  shows "decode_symm_int (encode_symm_int rot tr) = (rot, tr)"
proof -
  from assms(1) obtain a b c d e f g h i where rot: "rot = [[a, b, c], [d, e, f], [g, h, i]]"
    and ent: "a \<in> {- 1, 0, 1}" "b \<in> {- 1, 0, 1}" "c \<in> {- 1, 0, 1}" "d \<in> {- 1, 0, 1}"
      "e \<in> {- 1, 0, 1}" "f \<in> {- 1, 0, 1}" "g \<in> {- 1, 0, 1}" "h \<in> {- 1, 0, 1}" "i \<in> {- 1, 0, 1}"
    unfolding valid_rotation_def list3_conv by (auto simp: list3_conv)
  from assms(2) obtain x y z where tr: "tr = [x, y, z]"
    and tw: "0 \<le> x" "x < 1" "of_int \<lfloor>x * 12\<rfloor> = x * 12" "0 \<le> y" "y < 1" "of_int \<lfloor>y * 12\<rfloor> = y * 12"
      "0 \<le> z" "z < 1" "of_int \<lfloor>z * 12\<rfloor> = z * 12"
    unfolding duodecimal_translation_def list3_conv by auto
  obtain A B C D E F G H I :: int where
    "a = of_int A" "- 1 \<le> A" "A \<le> 1" "b = of_int B" "- 1 \<le> B" "B \<le> 1"
    "c = of_int C" "- 1 \<le> C" "C \<le> 1" "d = of_int D" "- 1 \<le> D" "D \<le> 1"
    "e = of_int E" "- 1 \<le> E" "E \<le> 1" "f = of_int F" "- 1 \<le> F" "F \<le> 1"
    "g = of_int G" "- 1 \<le> G" "G \<le> 1" "h = of_int H" "- 1 \<le> H" "H \<le> 1"
    "i = of_int I" "- 1 \<le> I" "I \<le> 1"
    using ent[THEN unit_entry] by blast
  moreover obtain X Y Z :: int where
    "x = of_int X / 12" "0 \<le> X" "X \<le> 11" "y = of_int Y / 12" "0 \<le> Y" "Y \<le> 11"
    "z = of_int Z / 12" "0 \<le> Z" "Z \<le> 11"
    using twelfth_entry[OF tw(1,2,3)] twelfth_entry[OF tw(4,5,6)] twelfth_entry[OF tw(7,8,9)] by blast
  ultimately show ?thesis
    unfolding rot tr by (simp only: roundtrip_ints)
qed

lemma floor_rat_divide_numeral:
  "\<lfloor>numeral a / numeral b :: rat\<rfloor> = numeral a div numeral b"
  "\<lfloor>1 / numeral b :: rat\<rfloor> = 1 div numeral b"
  "\<lfloor>- (numeral a / numeral b) :: rat\<rfloor> = - numeral a div numeral b"
  "\<lfloor>- (1 / numeral b) :: rat\<rfloor> = - 1 div numeral b"
  using floor_divide_of_int_eq[of "numeral a" "numeral b", where ?'a = rat]
    floor_divide_of_int_eq[of 1 "numeral b", where ?'a = rat]
    floor_divide_of_int_eq[of "- numeral a" "numeral b", where ?'a = rat]
    floor_divide_of_int_eq[of "- 1" "numeral b", where ?'a = rat]
  by simp_all

lemma twelfth_in_unit:
  fixes n :: int
  assumes "0 \<le> n" "n \<le> 11"
  shows "0 \<le> (of_int n / 12 :: rat)" "(of_int n / 12 :: rat) < 1"
    "of_int \<lfloor>of_int n / 12 * 12 :: rat\<rfloor> = (of_int n / 12 * 12 :: rat)"
  using assms by simp_all

lemma crystallographic_duodecimal:
  assumes "crystallographic_translation tr"
  shows "duodecimal_translation tr"
proof -
  have "0 \<le> x \<and> x < 1 \<and> of_int \<lfloor>x * 12\<rfloor> = x * 12"
    if "x \<in> (\<lambda>n. of_int n / 12) ` {0, 2, 3, 4, 6, 8, 9, 10 :: int}" for x :: rat
  proof -
    from that obtain n :: int where x: "x = of_int n / 12"
      and n: "n \<in> {0, 2, 3, 4, 6, 8, 9, 10}" by (rule imageE)
    from n have "0 \<le> n" "n \<le> 11" by auto
    then show ?thesis unfolding x using twelfth_in_unit[of n] by blast
  qed
  then show ?thesis
    using assms unfolding crystallographic_translation_def duodecimal_translation_def list_all_iff
    by blast
qed

section \<open>Round trip of the packed integer\<close>

text \<open>
  C1. For every \<^verbatim>\<open>SymmetryOperation\<close> whose rotation is a 3x3 matrix with entries in
  \<open>{-1, 0, 1}\<close> and whose translation components are twelfths with numerators in
  \<open>{0, 2, 3, 4, 6, 8, 9, 10}\<close>, decoding the integer that \<^verbatim>\<open>encode_symm_int\<close> packs gives
  back exactly the rotation and the translation.
\<close>

theorem roundtrip_decode_encode:
  assumes "valid_rotation (rotation s)" "crystallographic_translation (translation s)"
  shows "decode_symm_int (encode_symm_int (rotation s) (translation s))
           = (rotation s, translation s)"
  using assms by (simp add: decode_encode crystallographic_duodecimal)

theorem roundtrip_decode_encode_witness:
  "valid_rotation [[0, - 1, 0], [1, - 1, 0], [0, 0, 1]]
   \<and> crystallographic_translation [1 / 2, 1 / 3, 3 / 4]
   \<and> decode_symm_int (encode_symm_int [[0, - 1, 0], [1, - 1, 0], [0, 0, 1]] [1 / 2, 1 / 3, 3 / 4])
        = ([[0, - 1, 0], [1, - 1, 0], [0, 0, 1]], [1 / 2, 1 / 3, 3 / 4])"
  using roundtrip_decode_encode
          [of "\<lparr>rotation = [[0, - 1, 0], [1, - 1, 0], [0, 0, 1]],
                translation = [1 / 2, 1 / 3, 3 / 4], integer_code_attr = None\<rparr>"]
  by (simp add: valid_rotation_def crystallographic_translation_def)

section \<open>The identity sentinel\<close>


lemma decode_identity: "decode_symm_int 16484 = (identity_rotation, [0, 0, 0])"
  by (simp add: decode_symm_int_closed identity_rotation_def)

lemma encode_identity: "encode_symm_int identity_rotation [0, 0, 0] = 16484"
  by (simp add: encode_symm_int_closed identity_rotation_def np_round_def)

lemma identity_fields:
  "rotation identity = identity_rotation" "translation identity = [0, 0, 0]"
  "integer_code_attr identity = Some 16484"
  by (simp_all add: identity_def from_integer_code_def decode_identity SymmetryOperation_init_def
        mod_one_def)

lemma code_16484_is_identity:
  assumes "valid_rotation (rotation s)" "duodecimal_translation (translation s)"
    "attr_consistent s" "integer_code s = 16484"
  shows "rotation s = identity_rotation \<and> translation s = [0, 0, 0]"
proof (cases "integer_code_attr s")
  case None
  with assms(4) have "encode_symm_int (rotation s) (translation s) = 16484"
    by (simp add: integer_code_def)
  then have "decode_symm_int 16484 = (rotation s, translation s)"
    using decode_encode[OF assms(1,2)] by simp
  then show ?thesis by (simp add: decode_identity)
next
  case (Some c)
  with assms(4) have c: "c = 16484" by (simp add: integer_code_def)
  from assms(3) Some c consider
      "(rotation s, translation s) = (identity_rotation, map mod_one [0, 0, 0])"
    | "encode_symm_int (rotation s) (translation s) = 16484"
    by (auto simp: attr_consistent_def decode_identity)
  then show ?thesis
  proof cases
    case 1
    then show ?thesis by (simp add: mod_one_def)
  next
    case 2
    then have "decode_symm_int 16484 = (rotation s, translation s)"
      using decode_encode[OF assms(1,2)] by simp
    then show ?thesis by (simp add: decode_identity)
  qed
qed

text \<open>
  C7. The encoding of the identity operation (identity rotation, zero translation) is
  \<open>16484\<close>; \<^verbatim>\<open>SymmetryOperation.identity().is_identity()\<close> is true; and an operation with
  rotation entries in \<open>{-1, 0, 1}\<close> and a valid duodecimal translation that is not the
  identity is not accepted by \<^verbatim>\<open>is_identity\<close>. The operation is one the class built:
  its attribute \<^verbatim>\<open>_integer_code\<close> is absent or was written by \<^verbatim>\<open>from_integer_code\<close> or by
  the property.
\<close>

theorem identity_sentinel:
  "encode_symm_int identity_rotation [0, 0, 0] = 16484
   \<and> integer_code identity = 16484
   \<and> is_identity identity
   \<and> (valid_rotation (rotation s) \<and> crystallographic_translation (translation s)
        \<and> attr_consistent s
        \<and> \<not> (rotation s = identity_rotation \<and> translation s = [0, 0, 0])
      \<longrightarrow> \<not> is_identity s)"
  using code_16484_is_identity[of s]
  by (auto simp: encode_identity is_identity_def integer_code_def identity_fields
        crystallographic_duodecimal)

theorem identity_sentinel_witness:
  "valid_rotation [[- 1, 0, 0], [0, - 1, 0], [0, 0, - 1]]
   \<and> crystallographic_translation [0, 1 / 2, 0]
   \<and> attr_consistent (SymmetryOperation_init [[- 1, 0, 0], [0, - 1, 0], [0, 0, - 1]] [0, 1 / 2, 0])
   \<and> attr_consistent (from_integer_code 3198)
   \<and> \<not> is_identity (SymmetryOperation_init [[- 1, 0, 0], [0, - 1, 0], [0, 0, - 1]] [0, 1 / 2, 0])
   \<and> \<not> is_identity (from_integer_code 3198)"
  using identity_sentinel[of "SymmetryOperation_init [[- 1, 0, 0], [0, - 1, 0], [0, 0, - 1]] [0, 1 / 2, 0]"]
    identity_sentinel[of "from_integer_code 3198"]
  by (simp add: valid_rotation_def crystallographic_translation_def SymmetryOperation_init_def
        attr_consistent_def identity_rotation_def mod_one_def from_integer_code_def
        decode_symm_int_closed floor_rat_divide_numeral)

section \<open>The argument of the expansion\<close>

lemma lattice_type_known:
  "(\<exists>ts. LATTICE_TYPE_TRANSLATIONS k = Some ts) \<longleftrightarrow> 1 \<le> k \<and> k \<le> 7"
proof
  assume "\<exists>ts. LATTICE_TYPE_TRANSLATIONS k = Some ts"
  then show "1 \<le> k \<and> k \<le> 7"
    by (auto simp: LATTICE_TYPE_TRANSLATIONS_def split: if_splits)
next
  assume "1 \<le> k \<and> k \<le> 7"
  then consider "k = 1" | "k = 2" | "k = 3" | "k = 4" | "k = 5" | "k = 6" | "k = 7"
    by linarith
  then show "\<exists>ts. LATTICE_TYPE_TRANSLATIONS k = Some ts"
    by cases (simp_all add: LATTICE_TYPE_TRANSLATIONS_def)
qed

lemma lattice_type_unknown:
  "LATTICE_TYPE_TRANSLATIONS k = None \<longleftrightarrow> \<not> (1 \<le> k \<and> k \<le> 7)"
  using lattice_type_known[of k] by (cases "LATTICE_TYPE_TRANSLATIONS k") auto

text \<open>
  The claim C10 as it is worded fails for a lattice-type code without an entry in
  \<^verbatim>\<open>LATTICE_TYPE_TRANSLATIONS\<close>: with the code \<open>0\<close> the call raises before the list is
  touched, so the empty list, which does not contain the identity, stays empty.
\<close>

theorem expanded_symmetry_list_mutation_counterexample:
  "\<not> symop_in identity [] \<and> caller_list_after [] 0 \<noteq> [] @ [identity]"
  by (simp add: symop_in_def caller_list_after_def expanded_symmetry_list_def
        LATTICE_TYPE_TRANSLATIONS_def)

text \<open>
  C10, amended. When the absolute value of the lattice-type code is one of \<open>1, ..., 7\<close>,
  \<^verbatim>\<open>expanded_symmetry_list\<close> mutates its argument: a list that does not contain the
  identity operation has the identity appended after the call, and a list that contains it
  is left unchanged. For every other code the call raises \<^verbatim>\<open>KeyError\<close> and the list is
  left unchanged.
\<close>

theorem expanded_symmetry_list_mutation:
  "(1 \<le> \<bar>lattice_type\<bar> \<and> \<bar>lattice_type\<bar> \<le> 7 \<longrightarrow>
      (\<not> symop_in identity reduced_symops \<longrightarrow>
         caller_list_after reduced_symops lattice_type = reduced_symops @ [identity])
      \<and> (symop_in identity reduced_symops \<longrightarrow>
         caller_list_after reduced_symops lattice_type = reduced_symops))
   \<and> (\<not> (1 \<le> \<bar>lattice_type\<bar> \<and> \<bar>lattice_type\<bar> \<le> 7) \<longrightarrow>
         expanded_symmetry_list reduced_symops lattice_type = Inl (KeyError_int \<bar>lattice_type\<bar>)
         \<and> caller_list_after reduced_symops lattice_type = reduced_symops)"
proof (cases "LATTICE_TYPE_TRANSLATIONS \<bar>lattice_type\<bar>")
  case None
  then show ?thesis
    using lattice_type_unknown[of "\<bar>lattice_type\<bar>"]
    by (auto simp: caller_list_after_def expanded_symmetry_list_def)
next
  case (Some ts)
  then have "1 \<le> \<bar>lattice_type\<bar> \<and> \<bar>lattice_type\<bar> \<le> 7"
    using lattice_type_known[of "\<bar>lattice_type\<bar>"] by blast
  with Some show ?thesis
    by (simp add: caller_list_after_def expanded_symmetry_list_def Let_def)
qed

lemma identity_code: "integer_code identity = 16484"
  by (simp add: integer_code_def identity_fields)

lemma integer_code_from_integer_code: "integer_code (from_integer_code c) = c"
  by (simp add: integer_code_def from_integer_code_def split: prod.splits)

theorem expanded_symmetry_list_mutation_witness:
  "\<not> symop_in identity [from_integer_code 3198]
   \<and> caller_list_after [from_integer_code 3198] 2 = [from_integer_code 3198] @ [identity]
   \<and> symop_in identity [from_integer_code 3198, identity]
   \<and> caller_list_after [from_integer_code 3198, identity] (- 7) = [from_integer_code 3198, identity]
   \<and> expanded_symmetry_list [from_integer_code 3198] 8 = Inl (KeyError_int 8)
   \<and> caller_list_after [from_integer_code 3198] 8 = [from_integer_code 3198]"
proof -
  have h1: "\<not> symop_in identity [from_integer_code 3198]"
    by (simp add: symop_in_def symop_eq_def identity_code integer_code_from_integer_code)
  have h2: "symop_in identity [from_integer_code 3198, identity]"
    by (simp add: symop_in_def symop_eq_def)
  show ?thesis
    using h1 h2 expanded_symmetry_list_mutation[of 2 "[from_integer_code 3198]"]
      expanded_symmetry_list_mutation[of "- 7" "[from_integer_code 3198, identity]"]
      expanded_symmetry_list_mutation[of 8 "[from_integer_code 3198]"]
    by simp
qed

section \<open>The order in which the reduction reads its input\<close>

text \<open>
  C3 says that \<^verbatim>\<open>reduced_symmetry_list\<close> processes the candidates in ascending order of
  their codes, so that the result depends only on the set of operations. The loop runs over
  the list as it was supplied. The four operations of P2/m (\<open>x,y,z\<close>; \<open>x,-y,z\<close>;
  \<open>-x,-y,-z\<close>; \<open>-x,y,-z\<close>) with the lattice-type code \<open>1\<close>: supplied with the mirror
  before the rotation, the result keeps the mirror (code \<open>16322\<close>); supplied in ascending
  order of the codes, it keeps the rotation (code \<open>3360\<close>).
\<close>

theorem reduced_symmetry_list_input_order:
  "reduced_symmetry_list (map from_integer_code [16484, 16322, 3198, 3360]) 1
     = Inr [identity, from_integer_code 16322]
   \<and> reduced_symmetry_list (map from_integer_code [3198, 3360, 16322, 16484]) 1
     = Inr [identity, from_integer_code 3360]"
  by code_simp

section \<open>Dispatch on the file extension\<close>

text \<open>
  C9 as it is worded fails: for \<^verbatim>\<open>structure.xyz\<close> both entry points raise the bare
  \<^verbatim>\<open>KeyError\<close> of the dictionary lookup, whose text is \<^verbatim>\<open>'.xyz'\<close> and says nothing about
  an unsupported format.
\<close>

theorem load_save_unsupported_counterexample:
  "str_lower (snd (splitext ''structure.xyz'')) \<notin> {''.cif'', ''.res''}
   \<and> Crystal_load accepting_handler accepting_handler ''structure.xyz'' = Inl (KeyError_str ''.xyz'')
   \<and> Crystal_save accepting_handler accepting_handler ''structure.xyz'' = Inl (KeyError_str ''.xyz'')
   \<and> \<not> indicates_unsupported_format (KeyError_str ''.xyz'')"
  by code_simp

text \<open>
  C9, amended. For every filename whose lower-cased extension (the second component of
  \<^verbatim>\<open>os.path.splitext\<close>) is neither \<^verbatim>\<open>.cif\<close> nor \<^verbatim>\<open>.res\<close>, \<^verbatim>\<open>Crystal.load\<close> and
  \<^verbatim>\<open>Crystal.save\<close> fail with a \<^verbatim>\<open>KeyError\<close> that carries this lower-cased extension, and
  no reader or writer is called.
\<close>

theorem load_save_unsupported:
  "str_lower (snd (splitext filename)) \<notin> {''.cif'', ''.res''} \<longrightarrow>
     Crystal_load from_cif_file from_shelx_file filename
       = Inl (KeyError_str (str_lower (snd (splitext filename))))
     \<and> Crystal_save to_cif_file to_shelx_file filename
       = Inl (KeyError_str (str_lower (snd (splitext filename))))"
  by (simp add: Crystal_load_def Crystal_save_def Let_def)

theorem load_save_unsupported_witness:
  "str_lower (snd (splitext ''dir.d/Structure.XYZ'')) \<notin> {''.cif'', ''.res''}
   \<and> Crystal_load accepting_handler accepting_handler ''dir.d/Structure.XYZ'' = Inl (KeyError_str ''.xyz'')
   \<and> Crystal_save accepting_handler accepting_handler ''dir.d/Structure.XYZ'' = Inl (KeyError_str ''.xyz'')"
proof -
  have e: "str_lower (snd (splitext ''dir.d/Structure.XYZ'')) = ''.xyz''" by code_simp
  show ?thesis
    using load_save_unsupported[of "''dir.d/Structure.XYZ''" accepting_handler accepting_handler accepting_handler accepting_handler]
    by (simp add: e)
qed

section \<open>Classification of the unit cell\<close>

text \<open>
  C8. \<^verbatim>\<open>set_cell_type\<close> tests the class predicates in the order cubic, rhombohedral,
  hexagonal, tetragonal, orthorhombic, monoclinic and names the cell after the first that
  holds, triclinic when none does; in particular a cell for which the cubic predicate holds
  is cubic, whatever the other predicates say.
\<close>

theorem set_cell_type_priority:
  "cell_type (set_cell_type uc) = first_match_cell_type uc
   \<and> (is_cubic uc \<longrightarrow> cell_type (set_cell_type uc) = ''cubic'')"
  by (simp add: set_cell_type_def first_match_cell_type_def priority_order_def)

theorem set_cell_type_priority_witness:
  "is_cubic \<lparr>lengths = [5, 5, 5], angles = [pi / 2, pi / 2, pi / 2], cell_type_index = 0,
              cell_type = [], unique_parameters = []\<rparr>
   \<and> cell_type (set_cell_type \<lparr>lengths = [5, 5, 5], angles = [pi / 2, pi / 2, pi / 2],
         cell_type_index = 0, cell_type = [], unique_parameters = []\<rparr>) = ''cubic''"
proof -
  have c: "is_cubic \<lparr>lengths = [5, 5, 5], angles = [pi / 2, pi / 2, pi / 2], cell_type_index = 0,
              cell_type = [], unique_parameters = []\<rparr>"
    by (simp add: is_cubic_def abc_equal_def orthogonal_def close_def)
  show ?thesis
    using c set_cell_type_priority[of "\<lparr>lengths = [5, 5, 5], angles = [pi / 2, pi / 2, pi / 2],
              cell_type_index = 0, cell_type = [], unique_parameters = []\<rparr>"]
    by blast
qed

section \<open>The atoms of the unit cell\<close>

text \<open>
  C6 says that every component of \<^verbatim>\<open>frac_pos\<close> lies in \<open>[0, 1)\<close>, whatever the coordinates
  that the symmetry operations produce. A site at \<open>x = 8.5\<close> in P-1 has the image
  \<open>x = -8.5\<close>; \<^verbatim>\<open>np.fmod(-8.5 + 7.0, 1)\<close> keeps the sign of the dividend and gives
  \<open>-0.5\<close>.
\<close>

theorem unit_cell_atoms_negative_position:
  "unit_cell_atoms (crystal_P1bar [[17 / 2, 1 / 4, 1 / 2]]) (1 / 1000) =
     Inr \<lparr>asym_atom = [0, 0],
          frac_pos = [[1 / 2, 1 / 4, 1 / 2], [- 1 / 2, 3 / 4, 1 / 2]],
          element = [6, 6],
          symop = [16484, 3198],
          label = [''C'', ''C''],
          occupation = [1, 1],
          cart_pos = [[1 / 2, 1 / 4, 1 / 2], [- 1 / 2, 3 / 4, 1 / 2]]\<rparr>"
  by code_simp

theorem unit_cell_atoms_negative_position_witness:
  "(case unit_cell_atoms (crystal_P1bar [[17 / 2, 1 / 4, 1 / 2]]) (1 / 1000) of
      Inl e \<Rightarrow> False
    | Inr d \<Rightarrow> length (frac_pos d) = 2 \<and> frac_pos d ! 1 ! 0 = - 1 / 2 \<and> frac_pos d ! 1 ! 0 < 0)"
  using unit_cell_atoms_negative_position by simp

text \<open>The offset works for coordinates from \<open>-7\<close> upwards.\<close>

lemma fmod_one_in_unit:
  assumes "- 7 \<le> x"
  shows "0 \<le> fmod_one (x + 7)" "fmod_one (x + 7) < 1"
proof -
  have "0 \<le> x + 7" using assms by simp
  then have e: "fmod_one (x + 7) = x + 7 - of_int \<lfloor>x + 7\<rfloor>" by (simp add: fmod_one_def)
  show "0 \<le> fmod_one (x + 7)" unfolding e by linarith
  show "fmod_one (x + 7) < 1" unfolding e by linarith
qed

lemma unity_index_bound:
  "unity_index ops i = 0 \<or> (i \<le> unity_index ops i \<and> unity_index ops i < i + length ops)"
proof (induction ops arbitrary: i)
  case Nil
  then show ?case by simp
next
  case (Cons s ops)
  show ?case
  proof (cases "integer_code s = 16484")
    case True
    then show ?thesis by simp
  next
    case False
    with Cons[of "Suc i"] show ?thesis by auto
  qed
qed

lemma unity_index_less: "ops \<noteq> [] \<Longrightarrow> unity_index ops 0 < length ops"
  using unity_index_bound[of ops 0] by auto

lemma length_symop_apply: "length (symop_apply s coordinates) = length coordinates"
  by (simp add: symop_apply_def)

lemma length_concat_const:
  "(\<And>x. x \<in> set xs \<Longrightarrow> length (f x) = n) \<Longrightarrow> length (concat (map f xs)) = length xs * n"
  by (induction xs) auto

lemma apply_all_symops_length:
  assumes "ops \<noteq> []"
  shows "\<exists>sym' uc_pos. apply_all_symops ops coordinates = Inr (sym', uc_pos)
           \<and> length sym' = length coordinates * length ops
           \<and> length uc_pos = length coordinates * length ops"
proof -
  let ?u = "unity_index ops 0"
  let ?other = "take ?u ops @ drop (?u + 1) ops"
  have u: "?u < length ops" using assms by (rule unity_index_less)
  then have lo: "length ?other = length ops - 1" by auto
  have l1: "length (concat (map (\<lambda>s. symop_apply s coordinates) ?other))
              = length ?other * length coordinates"
    by (rule length_concat_const) (simp add: length_symop_apply)
  have l2: "length (concat (map (\<lambda>s. replicate (length coordinates) (astype_int32 (integer_code s)))
                                 ?other))
              = length ?other * length coordinates"
    by (rule length_concat_const) simp
  have "length coordinates + (length ops - 1) * length coordinates = length coordinates * length ops"
    using u by (cases "length ops") (simp_all add: algebra_simps)
  then show ?thesis
    using assms l1 l2 lo by (simp add: apply_all_symops_def Let_def)
qed

lemma merge_sites_no_pair:
  "list_all (\<lambda>(i, j). \<not> i < j) pairs \<Longrightarrow> merge_sites pairs (occ, msk) = (occ, msk)"
  by (induction pairs) auto

lemma select_mask_all: "length msk = length xs \<Longrightarrow> list_all (\<lambda>b. b) msk \<Longrightarrow> select_mask xs msk = xs"
proof (induction xs arbitrary: msk)
  case Nil
  then show ?case by (simp add: select_mask_def)
next
  case (Cons x xs)
  then obtain b bs where "msk = b # bs" by (cases msk) auto
  with Cons show ?case by (simp add: select_mask_def)
qed

lemma select_mask_True: "n = length xs \<Longrightarrow> select_mask xs (replicate n True) = xs"
  by (rule select_mask_all) (simp_all add: list_all_iff)

lemma length_np_tile: "length (np_tile xs n) = n * length xs"
  by (induction n) (simp_all add: np_tile_def)

lemma np_tile_nth: "k < n * length xs \<Longrightarrow> np_tile xs n ! k = xs ! (k mod length xs)"
proof (induction n arbitrary: k)
  case 0
  then show ?case by simp
next
  case (Suc n)
  show ?case
  proof (cases "k < length xs")
    case True
    then show ?thesis by (simp add: np_tile_def nth_append)
  next
    case False
    then have "k - length xs < n * length xs" using Suc.prems by simp
    then have "np_tile xs n ! (k - length xs) = xs ! ((k - length xs) mod length xs)"
      by (rule Suc.IH)
    moreover have "(k - length xs) mod length xs = k mod length xs"
      using False by (simp add: le_mod_geq)
    ultimately show ?thesis using False by (simp add: np_tile_def nth_append)
  qed
qed

text \<open>
  C5. For a crystal whose asymmetric unit is consistent, whose space group has at least one
  operation, and in which no two generated symmetry images fall within the merge tolerance
  of each other, \<^verbatim>\<open>unit_cell_atoms\<close> returns arrays with exactly
  \<open>nsites * len(symmetry_operations)\<close> rows, and the occupation of every row is the
  occupation of the asymmetric-unit site it comes from. (The claim also assumes that no
  site has partial occupancy; the proof does not need it.)
\<close>

theorem unit_cell_atoms_no_merge:
  assumes "consistent_asymmetric_unit c" "symmetry_operations c \<noteq> []"
    "no_close_images c tolerance"
  shows "\<exists>d. unit_cell_atoms c tolerance = Inr d
           \<and> length (asym_atom d) = nsites c * length (symmetry_operations c)
           \<and> length (frac_pos d) = nsites c * length (symmetry_operations c)
           \<and> length (cart_pos d) = nsites c * length (symmetry_operations c)
           \<and> length (element d) = nsites c * length (symmetry_operations c)
           \<and> length (symop d) = nsites c * length (symmetry_operations c)
           \<and> length (label d) = nsites c * length (symmetry_operations c)
           \<and> length (occupation d) = nsites c * length (symmetry_operations c)
           \<and> (\<forall>k < nsites c * length (symmetry_operations c).
                 asym_atom d ! k < nsites c
                 \<and> occupation d ! k = site_occupation c ! (asym_atom d ! k))"
proof -
  let ?n = "nsites c" and ?m = "length (symmetry_operations c)"
  from assms(1) have len: "length (positions (asymmetric_unit c)) = ?n"
    "length (labels (asymmetric_unit c)) = ?n" "length (site_occupation c) = ?n"
    by (simp_all add: consistent_asymmetric_unit_def)
  obtain sym' uc_pos where
    ap: "apply_all_symops (symmetry_operations c) (positions (asymmetric_unit c)) = Inr (sym', uc_pos)"
    and ls: "length sym' = ?n * ?m" and lu: "length uc_pos = ?n * ?m"
    using apply_all_symops_length[OF assms(2), of "positions (asymmetric_unit c)"] len(1) by auto
  have lw: "length (wrap_positions uc_pos) = ?n * ?m" by (simp add: wrap_positions_def lu)
  have nomerge: "list_all (\<lambda>(i, j). \<not> i < j) (sparse_distance_matrix (wrap_positions uc_pos) tolerance)"
    using assms(3) by (simp add: no_close_images_def generated_images_def ap)
  have occ0: "(case occupation_property (asymmetric_unit c) of
                 Some occ \<Rightarrow> occ | None \<Rightarrow> replicate (nsites c) 1) = site_occupation c"
    by (simp add: site_occupation_def)
  have nat_len: "length (atomic_numbers (asymmetric_unit c)) = ?n" by (simp add: nsites_def)
  define d where "d = \<lparr>asym_atom = map (\<lambda>k. k mod ?n) [0..<?m * ?n],
      frac_pos = wrap_positions uc_pos,
      element = np_tile (atomic_numbers (asymmetric_unit c)) ?m,
      symop = sym',
      label = np_tile (labels (asymmetric_unit c)) ?m,
      occupation = np_tile (site_occupation c) ?m,
      cart_pos = to_cartesian (direct c) (wrap_positions uc_pos)\<rparr>"
  have "unit_cell_atoms c tolerance = Inr d"
    unfolding unit_cell_atoms_def Let_def occ0 ap
    by (simp add: length_np_tile len nat_len lu merge_sites_no_pair[OF nomerge]
          select_mask_True lw ls d_def mult.commute)
  moreover have "length (cart_pos d) = ?n * ?m" by (simp add: d_def to_cartesian_def lw)
  moreover have "asym_atom d ! k < ?n \<and> occupation d ! k = site_occupation c ! (asym_atom d ! k)"
    if "k < ?n * ?m" for k
  proof -
    from that have k: "k < ?m * ?n" by (simp add: mult.commute)
    then have "0 < ?n" by (cases "?n") auto
    then show ?thesis using k by (simp add: d_def np_tile_nth len)
  qed
  ultimately show ?thesis
    by (intro exI[of _ d]) (simp add: d_def lw ls length_np_tile len nat_len mult.commute)
qed

theorem unit_cell_atoms_no_merge_witness:
  "consistent_asymmetric_unit (crystal_P1bar [[1 / 4, 1 / 5, 1 / 3], [1 / 2, 7 / 10, 1 / 8]])
   \<and> symmetry_operations (crystal_P1bar [[1 / 4, 1 / 5, 1 / 3], [1 / 2, 7 / 10, 1 / 8]]) \<noteq> []
   \<and> no_close_images (crystal_P1bar [[1 / 4, 1 / 5, 1 / 3], [1 / 2, 7 / 10, 1 / 8]]) (1 / 1000)
   \<and> (\<exists>d. unit_cell_atoms (crystal_P1bar [[1 / 4, 1 / 5, 1 / 3], [1 / 2, 7 / 10, 1 / 8]]) (1 / 1000) = Inr d
          \<and> length (frac_pos d) = 4 \<and> occupation d = [1, 1, 1, 1])"
proof -
  let ?c = "crystal_P1bar [[1 / 4, 1 / 5, 1 / 3], [1 / 2, 7 / 10, 1 / 8]]"
  have h1: "consistent_asymmetric_unit ?c" by code_simp
  have h2: "symmetry_operations ?c \<noteq> []" by (simp add: crystal_P1bar_def)
  have h3: "no_close_images ?c (1 / 1000)" by code_simp
  have n: "nsites ?c = 2" "length (symmetry_operations ?c) = 2" "site_occupation ?c = [1, 1]"
    by (simp_all add: crystal_P1bar_def nsites_def site_occupation_def numeral_2_eq_2)
  from unit_cell_atoms_no_merge[OF h1 h2 h3] obtain d where
    d: "unit_cell_atoms ?c (1 / 1000) = Inr d" "length (frac_pos d) = 4" "length (occupation d) = 4"
      "\<forall>k<4. asym_atom d ! k < 2 \<and> occupation d ! k = [1, 1] ! (asym_atom d ! k)"
    unfolding n by auto
  have "occupation d ! k = 1" if "k < 4" for k
    using d(4) that by (auto simp: less_Suc_eq numeral_2_eq_2 nth_Cons')
  then have "occupation d = [1, 1, 1, 1]"
    using d(3) by (intro nth_equalityI) (auto simp: nth_Cons' )
  with d h1 h2 h3 show ?thesis by blast
qed

section \<open>Selection of the symmetry-unique molecules\<close>












section \<open>Reduction followed by expansion\<close>











































end
